theory Spec2Isabelle
  imports Main "HOL-Library.AList"
begin

section \<open>Values of the hosted database and of JavaScript expressions\<close>

text \<open>
  The handlers of \<^verbatim>\<open>functions/index.js\<close> move JSON values between the realtime
  database, the payment provider, the logging sink and the mail transport. A database
  value is a JSON tree; \<open>JNull\<close> is JavaScript's \<open>null\<close>, which the database also
  uses for "nothing stored here". Numbers are modelled as integers (amounts are integral
  cents); an object is its list of properties.

  A JavaScript expression can also yield \<open>undefined\<close>: the result of an expression is a
  \<open>json option\<close>, with \<open>None\<close> for \<open>undefined\<close>.
\<close>

datatype json =
    JNull
  | JBool bool
  | JNum int
  | JStr string
  | JObj "(string \<times> json) list"

type_synonym jsv = "json option"

text \<open>An object literal built by a handler: a property may hold \<open>undefined\<close>.\<close>

type_synonym js_object = "(string \<times> jsv) list"

text \<open>
  Property access \<open>v.k\<close> on a value that is not \<open>null\<close>: the property of an object, and
  \<open>undefined\<close> when the object has no such property or the value is a primitive (none of
  the property names read by the handlers exists on a string, number or boolean).
  On \<open>null\<close> JavaScript throws a TypeError; every handler below tests for \<open>null\<close>
  before it calls \<open>get_prop\<close>, or raises the TypeError itself.
\<close>

fun get_prop :: "json \<Rightarrow> string \<Rightarrow> jsv" where
  "get_prop (JObj fs) k = map_of fs k"
| "get_prop _ k = None"

text \<open>JavaScript truthiness: \<open>undefined\<close>, \<open>null\<close>, \<open>false\<close>, \<open>0\<close> and the empty string are falsy.\<close>

fun truthy :: "jsv \<Rightarrow> bool" where
  "truthy None = False"
| "truthy (Some JNull) = False"
| "truthy (Some (JBool b)) = b"
| "truthy (Some (JNum n)) = (n \<noteq> 0)"
| "truthy (Some (JStr s)) = (s \<noteq> [])"
| "truthy (Some (JObj fs)) = True"

subsection \<open>The database tree\<close>

type_synonym path = "string list"

text \<open>\<open>ref(path).once('value')\<close> followed by \<open>snapshot.val()\<close>: the subtree, or \<open>null\<close>.\<close>

fun get_path :: "path \<Rightarrow> json \<Rightarrow> json" where
  "get_path [] t = t"
| "get_path (k # ks) t =
     (case t of
        JObj fs \<Rightarrow> (case map_of fs k of Some c \<Rightarrow> get_path ks c | None \<Rightarrow> JNull)
      | _ \<Rightarrow> JNull)"

text \<open>
  \<open>ref(path).set(v)\<close> replaces the subtree at the path; storing \<open>null\<close> removes it, and a
  node left without children disappears. Writing below a leaf turns the leaf into an
  object.
\<close>

fun obj_fields :: "json \<Rightarrow> (string \<times> json) list" where
  "obj_fields (JObj fs) = fs"
| "obj_fields _ = []"

fun set_path :: "path \<Rightarrow> json \<Rightarrow> json \<Rightarrow> json" where
  "set_path [] v t = v"
| "set_path (k # ks) v t =
     (let child = set_path ks v (get_path [k] t);
          fs = (if child = JNull then AList.delete k (obj_fields t)
                else AList.update k child (obj_fields t))
      in if fs = [] then JNull else JObj fs)"

section \<open>Errors, effects and the outside world\<close>

text \<open>
  A rejection or exception carries a JavaScript \<open>Error\<close> object: \<open>message\<close> and
  \<open>stack\<close> are strings, and the payment provider's errors carry a \<open>type\<close> property in
  addition (\<open>None\<close> when the property is absent).
\<close>

record js_error =
  etype :: jsv
  emessage :: string
  estack :: string

text \<open>
  Errors raised by the runtime and by the database client. Only the first line of the
  stack is modelled.
\<close>

definition TypeError :: "string \<Rightarrow> js_error" where
  "TypeError m = \<lparr>etype = None, emessage = m, estack = ''TypeError: '' @ m\<rparr>"

definition undefined_write_error :: js_error where
  "undefined_write_error =
     \<lparr>etype = None,
      emessage = ''Reference.set failed: First argument contains undefined'',
      estack = ''Error: Reference.set failed: First argument contains undefined''\<rparr>"

text \<open>The calls the handlers make to the payment provider.\<close>

datatype provider_call =
    ChargesCreate js_object string
  | CustomersCreate js_object
  | CustomersCreateSource json js_object
  | CustomersDel json

record mail_options =
  mail_from :: string
  mail_to :: jsv
  mail_subject :: string
  mail_html :: string

text \<open>Everything a handler does to the outside, in the order it happens.\<close>

datatype effect =
    DbRead path
  | DbSet path json
  | DbRemove path
  | StripeCall provider_call
  | LogWrite string json json
  | MailSend mail_options
  | ConsoleLog string jsv
  | ConsoleError string js_error

text \<open>
  The world a handler runs in: the database, the state of the payment provider (of a
  type \<open>'p\<close> that the handlers never inspect) and the trace of effects so far.
\<close>

record 'p world =
  db :: json
  stripe_state :: 'p
  trace :: "effect list"

text \<open>
  The external collaborators and the process configuration. \<open>stripe_api\<close> answers a
  provider call with a rejection (\<open>Inl\<close>) or a response; \<open>log_write\<close> and \<open>send_mail\<close>
  return the error handed to the callback, if any. \<open>config_currency\<close> is
  \<open>functions.config().stripe.currency\<close>; \<open>function_name\<close> and \<open>gcloud_project\<close>
  are the environment variables \<open>FUNCTION_NAME\<close> and \<open>GCLOUD_PROJECT\<close>.
\<close>

record 'p env =
  stripe_api :: "provider_call \<Rightarrow> 'p \<Rightarrow> (js_error + json) \<times> 'p"
  log_write :: "string \<Rightarrow> json \<Rightarrow> json \<Rightarrow> js_error option"
  send_mail :: "mail_options \<Rightarrow> js_error option"
  config_currency :: jsv
  function_name :: string
  gcloud_project :: string

text \<open>
  An asynchronous computation: from a world to a rejection or a result, and the world
  after it.
\<close>

type_synonym ('p, 'a) io = "'p world \<Rightarrow> (js_error + 'a) \<times> 'p world"

definition resolve :: "'a \<Rightarrow> ('p, 'a) io" where
  "resolve a w = (Inr a, w)"

definition reject :: "js_error \<Rightarrow> ('p, 'a) io" where
  "reject e w = (Inl e, w)"

text \<open>\<open>m.then(f)\<close>: a rejection of \<open>m\<close> skips \<open>f\<close>.\<close>

definition then_do :: "('p, 'a) io \<Rightarrow> ('a \<Rightarrow> ('p, 'b) io) \<Rightarrow> ('p, 'b) io" where
  "then_do m f w = (case m w of (Inl e, w') \<Rightarrow> (Inl e, w') | (Inr a, w') \<Rightarrow> f a w')"

text \<open>
  \<open>m.then(f, g)\<close>: \<open>g\<close> handles a rejection of \<open>m\<close>, not one of \<open>f\<close>.
  \<open>m.catch(g)\<close> is \<open>then_else m resolve g\<close>.
\<close>

definition then_else ::
  "('p, 'a) io \<Rightarrow> ('a \<Rightarrow> ('p, 'b) io) \<Rightarrow> (js_error \<Rightarrow> ('p, 'b) io) \<Rightarrow> ('p, 'b) io" where
  "then_else m f g w = (case m w of (Inl e, w') \<Rightarrow> g e w' | (Inr a, w') \<Rightarrow> f a w')"

definition emit :: "effect \<Rightarrow> 'p world \<Rightarrow> 'p world" where
  "emit x w = w\<lparr>trace := trace w @ [x]\<rparr>"

definition db_once :: "path \<Rightarrow> ('p, json) io" where
  "db_once p w = (Inr (get_path p (db w)), emit (DbRead p) w)"

text \<open>
  The hosted database answers every read and takes every write of a defined value. The
  database client refuses \<open>undefined\<close> before anything is written.
\<close>

definition db_set :: "path \<Rightarrow> jsv \<Rightarrow> ('p, unit) io" where
  "db_set p v w =
     (case v of
        None \<Rightarrow> (Inl undefined_write_error, w)
      | Some x \<Rightarrow> (Inr (), emit (DbSet p x) (w\<lparr>db := set_path p x (db w)\<rparr>)))"

definition db_remove :: "path \<Rightarrow> ('p, unit) io" where
  "db_remove p w = (Inr (), emit (DbRemove p) (w\<lparr>db := set_path p JNull (db w)\<rparr>))"

definition stripe :: "'p env \<Rightarrow> provider_call \<Rightarrow> ('p, json) io" where
  "stripe env c w =
     (case stripe_api env c (stripe_state w) of
        (r, s') \<Rightarrow> (r, emit (StripeCall c) (w\<lparr>stripe_state := s'\<rparr>)))"

definition sendMail :: "'p env \<Rightarrow> mail_options \<Rightarrow> ('p, unit) io" where
  "sendMail env m w =
     (case send_mail env m of
        Some e \<Rightarrow> (Inl e, emit (MailSend m) w)
      | None \<Rightarrow> (Inr (), emit (MailSend m) w))"

definition console_log :: "string \<Rightarrow> jsv \<Rightarrow> ('p, unit) io" where
  "console_log s v w = (Inr (), emit (ConsoleLog s v) w)"

definition console_error :: "string \<Rightarrow> js_error \<Rightarrow> ('p, unit) io" where
  "console_error s e w = (Inr (), emit (ConsoleError s e) w)"

section \<open>The handlers\<close>

text \<open>\<open>functions.config().stripe.currency || 'USD'\<close>\<close>

definition currency :: "'p env \<Rightarrow> json" where
  "currency env =
     (case config_currency env of
        Some c \<Rightarrow> (if truthy (Some c) then c else JStr ''USD'')
      | None \<Rightarrow> JStr ''USD'')"

text \<open>\<open>userFacingMessage\<close>: the message of an error with a truthy \<open>type\<close>, else a fixed text.\<close>

definition userFacingMessage :: "js_error \<Rightarrow> string" where
  "userFacingMessage error =
     (if truthy (etype error) then emessage error
      else ''An error occurred, developers have been alerted'')"

text \<open>
  \<open>reportError\<close>: one entry on the log stream \<open>errors\<close>, made of the resource
  metadata and of the error event; an error of the sink rejects.
\<close>

definition metadata :: "'p env \<Rightarrow> json" where
  "metadata env =
     JObj [(''resource'',
       JObj [(''type'', JStr ''cloud_function''),
             (''labels'', JObj [(''function_name'', JStr (function_name env))])])]"

definition errorEvent :: "'p env \<Rightarrow> js_error \<Rightarrow> json \<Rightarrow> json" where
  "errorEvent env err context =
     JObj [(''message'', JStr (estack err)),
           (''serviceContext'',
              JObj [(''service'', JStr (function_name env)),
                    (''resourceType'', JStr ''cloud_function'')]),
           (''context'', context)]"

definition reportError :: "'p env \<Rightarrow> js_error \<Rightarrow> json \<Rightarrow> ('p, unit) io" where
  "reportError env err context w =
     (let logName = ''errors'';
          w' = emit (LogWrite logName (metadata env) (errorEvent env err context)) w
      in case log_write env logName (metadata env) (errorEvent env err context) of
           Some error \<Rightarrow> (Inl error, w')
         | None \<Rightarrow> (Inr (), w'))"

subsection \<open>createStripeCharge\<close>

text \<open>
  A write at \<open>/stripe_customers/{userId}/charges/{id}\<close>: \<open>charge_val\<close> is
  \<open>event.data.val()\<close>, the two parameters are \<open>event.params\<close>, and
  \<open>event.data.adminRef\<close> is the reference to the written node.
\<close>

record charge_event =
  charge_val :: json
  charge_userId :: string
  charge_id :: string

definition charge_ref :: "charge_event \<Rightarrow> path" where
  "charge_ref ev = [''stripe_customers'', charge_userId ev, ''charges'', charge_id ev]"

definition customer_id_ref :: "string \<Rightarrow> path" where
  "customer_id_ref uid = [''stripe_customers'', uid, ''customer_id'']"

text \<open>The charge object: \<open>source\<close> is added unless \<open>val.source\<close> is \<open>null\<close>.\<close>

definition charge_payload :: "'p env \<Rightarrow> json \<Rightarrow> json \<Rightarrow> js_object" where
  "charge_payload env val customer =
     (let charge = [(''amount'', get_prop val ''amount''),
                    (''currency'', Some (currency env)),
                    (''customer'', Some customer)]
      in if get_prop val ''source'' \<noteq> Some JNull
         then charge @ [(''source'', get_prop val ''source'')]
         else charge)"

definition createStripeCharge :: "'p env \<Rightarrow> charge_event \<Rightarrow> ('p, unit) io" where
  "createStripeCharge env ev =
     (let val = charge_val ev in
      if val = JNull \<or> truthy (get_prop val ''id'') \<or> truthy (get_prop val ''error'')
      then resolve ()
      else
        then_else
          (then_do
             (then_do (db_once (customer_id_ref (charge_userId ev))) resolve)
             (\<lambda>customer.
                stripe env (ChargesCreate (charge_payload env val customer) (charge_id ev))))
          (\<lambda>response. db_set (charge_ref ev) (Some response))
          (\<lambda>error.
             then_do
               (db_set (charge_ref ev @ [''error''])
                  (Some (JStr (userFacingMessage error))))
               (\<lambda>_. reportError env error
                       (JObj [(''user'', JStr (charge_userId ev))]))))"

subsection \<open>createTheStripeCustomer and cleanupUser\<close>

text \<open>The account of the authentication provider: \<open>event.data\<close>.\<close>

record user_record =
  user_uid :: string
  user_email :: "string option"

definition createTheStripeCustomer :: "'p env \<Rightarrow> user_record \<Rightarrow> ('p, unit) io" where
  "createTheStripeCustomer env data =
     then_do
       (stripe env (CustomersCreate [(''email'', map_option JStr (user_email data))]))
       (\<lambda>customer.
          if customer = JNull
          then reject (TypeError ''Cannot read property 'id' of null'')
          else db_set (customer_id_ref (user_uid data)) (get_prop customer ''id''))"

definition customer_ref :: "string \<Rightarrow> path" where
  "customer_ref uid = [''stripe_customers'', uid]"

definition cleanupUser :: "'p env \<Rightarrow> user_record \<Rightarrow> ('p, unit) io" where
  "cleanupUser env data =
     then_do
       (then_do
          (then_do (db_once (customer_ref (user_uid data))) resolve)
          (\<lambda>customer. stripe env (CustomersDel customer)))
       (\<lambda>_. db_remove (customer_ref (user_uid data)))"

subsection \<open>addPaymentSource\<close>

text \<open>A write at \<open>/stripe_customers/{userId}/sources/{pushId}/token\<close>.\<close>

record source_event =
  source_val :: json
  source_userId :: string
  source_pushId :: string

definition token_ref :: "source_event \<Rightarrow> path" where
  "token_ref ev =
     [''stripe_customers'', source_userId ev, ''sources'', source_pushId ev, ''token'']"

text \<open>\<open>adminRef.parent\<close>: the reference without its last key.\<close>

definition parent :: "path \<Rightarrow> path" where
  "parent p = butlast p"


subsection \<open>sendEmailConfirmation and sendOrderConfirmation\<close>

text \<open>
  A write at \<open>/admins/{id}\<close>. \<open>admin_changed\<close> is the snapshot's \<open>changed\<close> method,
  which belongs to the functions runtime; it is a parameter of the event here.
\<close>

record admin_event =
  admin_val :: json
  admin_changed :: "string \<Rightarrow> bool"
  admin_id :: string

definition sendEmailConfirmation :: "'p env \<Rightarrow> admin_event \<Rightarrow> ('p, unit) io" where
  "sendEmailConfirmation env ev =
     (let val = admin_val ev in
      if \<not> admin_changed ev ''active'' then resolve ()
      else if val = JNull
      then reject (TypeError ''Cannot read property 'email' of null'')
      else
        let mailOptions =
              \<lparr>mail_from = ''\"FireShop\" <noreply@firebase.com>'',
               mail_to = get_prop val ''email'',
               mail_subject = '''',
               mail_html = ''''\<rparr>
        in if \<not> truthy (get_prop val ''active'')
           then
             then_else
               (then_do
                  (sendMail env (mailOptions\<lparr>
                     mail_subject := ''Admin Confirmation'',
                     mail_html := ''<h2>FireShop</h2>You have been added as an admin to FireShop. <br><br>Sign in now: https://''
                       @ gcloud_project env @ ''.firebaseapp.com/register''\<rparr>))
                  (\<lambda>_. console_log ''New admin confirmation email sent to:''
                          (get_prop val ''email'')))
               resolve
               (\<lambda>error. console_error ''There was an error while sending the email:'' error)
           else resolve ())"

text \<open>
  The creation of \<open>/users/{uid}/orders/{orderId}\<close>; \<open>event.data.ref.parent.parent\<close> is
  \<open>/users/{uid}\<close>.
\<close>

record order_event =
  order_uid :: string
  order_orderId :: string

definition order_ref :: "order_event \<Rightarrow> path" where
  "order_ref ev = [''users'', order_uid ev, ''orders'', order_orderId ev]"

definition sendOrderConfirmation :: "'p env \<Rightarrow> order_event \<Rightarrow> ('p, unit) io" where
  "sendOrderConfirmation env ev =
     then_do (db_once (parent (parent (order_ref ev))))
       (\<lambda>user.
          if user = JNull
          then reject (TypeError ''Cannot read property 'email' of null'')
          else
            let email = get_prop user ''email'' in
            if truthy email
            then
              then_else
                (then_do
                   (sendMail env
                      \<lparr>mail_from = ''\"FireShop\" <noreply@firebase.com>'',
                       mail_to = email,
                       mail_subject = ''Order Confirmation'',
                       mail_html = ''<h2>FireShop</h2>Order #'' @ order_orderId ev
                         @ ''. This is a confirmation email for you order on FireShop. <br><br>''
                         @ ''View order details and status by logging in: https://''
                         @ gcloud_project env @ ''.firebaseapp.com/account/order/''
                         @ order_orderId ev\<rparr>)
                   (\<lambda>_. console_log ''New order confirmation email sent to:'' email))
                resolve
                (\<lambda>error. console_error ''There was an error while sending the email:'' error)
            else resolve ())"


section \<open>Reading a trace\<close>

text \<open>The provider calls, the database writes and the mails of a trace, in order.\<close>

fun stripe_calls :: "effect list \<Rightarrow> provider_call list" where
  "stripe_calls [] = []"
| "stripe_calls (StripeCall c # xs) = c # stripe_calls xs"
| "stripe_calls (_ # xs) = stripe_calls xs"

fun db_writes :: "effect list \<Rightarrow> (path \<times> json) list" where
  "db_writes [] = []"
| "db_writes (DbSet p v # xs) = (p, v) # db_writes xs"
| "db_writes (DbRemove p # xs) = (p, JNull) # db_writes xs"
| "db_writes (_ # xs) = db_writes xs"

fun mails_sent :: "effect list \<Rightarrow> mail_options list" where
  "mails_sent [] = []"
| "mails_sent (MailSend m # xs) = m # mails_sent xs"
| "mails_sent (_ # xs) = mails_sent xs"

section \<open>Test doubles\<close>

text \<open>
  Stand-ins for the external collaborators, used to run the handlers on concrete
  inputs: a provider that accepts every call with a fixed response, one that rejects
  every call with a fixed error, and an environment whose logging sink and mail
  transport always succeed and whose configuration names no currency.
\<close>

definition accepting_api :: "json \<Rightarrow> provider_call \<Rightarrow> unit \<Rightarrow> (js_error + json) \<times> unit" where
  "accepting_api r c s = (Inr r, s)"

definition declining_api :: "js_error \<Rightarrow> provider_call \<Rightarrow> unit \<Rightarrow> (js_error + json) \<times> unit" where
  "declining_api e c s = (Inl e, s)"

definition stub_env :: "(provider_call \<Rightarrow> 'p \<Rightarrow> (js_error + json) \<times> 'p) \<Rightarrow> 'p env" where
  "stub_env api =
     \<lparr>stripe_api = api,
      log_write = (\<lambda>n m d. None),
      send_mail = (\<lambda>m. None),
      config_currency = None,
      function_name = ''handler'',
      gcloud_project = ''fireshop''\<rparr>"

definition world0 :: "json \<Rightarrow> unit world" where
  "world0 d = \<lparr>db = d, stripe_state = (), trace = []\<rparr>"

text \<open>A database in which account \<open>u1\<close> has the customer record \<open>cus_123\<close>.\<close>

definition db_cus123 :: json where
  "db_cus123 =
     JObj [(''stripe_customers'', JObj [(''u1'', JObj [(''customer_id'', JStr ''cus_123'')])])]"

definition card_declined :: js_error where
  "card_declined =
     \<lparr>etype = Some (JStr ''card_error''),
      emessage = ''Your card was declined.'',
      estack = ''Error: Your card was declined.''\<rparr>"

text \<open>
  A stateful double of the payment provider: it keeps the customers it has created,
  numbers their ids, deletes a customer by its id string, and answers a deletion whose
  argument is not a string with the client library's argument error.
\<close>

record stripe_double =
  customers :: "(string \<times> json) list"
  created :: nat

definition id_not_string :: js_error where
  "id_not_string =
     \<lparr>etype = None,
      emessage = ''Stripe: \"id\" must be a string, but got: object'',
      estack = ''Error: Stripe: \"id\" must be a string, but got: object''\<rparr>"

definition no_such_customer :: js_error where
  "no_such_customer =
     \<lparr>etype = Some (JStr ''StripeInvalidRequestError''),
      emessage = ''No such customer'',
      estack = ''Error: No such customer''\<rparr>"

fun double_api :: "provider_call \<Rightarrow> stripe_double \<Rightarrow> (js_error + json) \<times> stripe_double" where
  "double_api (CustomersCreate payload) s =
     (let cid = ''cus_'' @ replicate (Suc (created s)) (CHR ''x'');
          customer = JObj ((''id'', JStr cid) #
                       List.map_filter (\<lambda>(k, v). map_option (Pair k) v) payload)
      in (Inr customer,
          s\<lparr>customers := (cid, customer) # customers s, created := Suc (created s)\<rparr>))"
| "double_api (CustomersDel (JStr cid)) s =
     (if map_of (customers s) cid = None then (Inl no_such_customer, s)
      else (Inr (JObj [(''deleted'', JBool True), (''id'', JStr cid)]),
            s\<lparr>customers := AList.delete cid (customers s)\<rparr>))"
| "double_api (CustomersDel _) s = (Inl id_not_string, s)"
| "double_api (ChargesCreate payload k) s = (Inr (JObj [(''id'', JStr (''ch_'' @ k))]), s)"
| "double_api (CustomersCreateSource c payload) s = (Inr (JObj [(''id'', JStr ''card_1'')]), s)"

text \<open>An empty database in front of a provider without customers, and an account.\<close>

definition double0 :: "stripe_double world" where
  "double0 = \<lparr>db = JNull, stripe_state = \<lparr>customers = [], created = 0\<rparr>, trace = []\<rparr>"

definition alice :: user_record where
  "alice = \<lparr>user_uid = ''u1'', user_email = Some ''alice@example.com''\<rparr>"

text \<open>A record or an error "contains" a field when reading the property is not \<open>undefined\<close>.\<close>

definition has_field :: "json \<Rightarrow> string \<Rightarrow> bool" where
  "has_field v k = (get_prop v k \<noteq> None)"

section \<open>Lemmas on the database and on traces\<close>

lemmas io_defs = resolve_def reject_def then_do_def then_else_def emit_def db_once_def
  db_set_def db_remove_def stripe_def sendMail_def console_log_def console_error_def

lemmas stub_defs = stub_env_def accepting_api_def declining_api_def world0_def db_cus123_def
  card_declined_def

lemmas ref_defs = customer_id_ref_def customer_ref_def charge_ref_def token_ref_def
  order_ref_def parent_def

lemma stripe_calls_append: "stripe_calls (xs @ ys) = stripe_calls xs @ stripe_calls ys"
  by (induction xs rule: stripe_calls.induct) simp_all


lemma mails_sent_append: "mails_sent (xs @ ys) = mails_sent xs @ mails_sent ys"
  by (induction xs rule: mails_sent.induct) simp_all

lemma get_path_JNull: "get_path ks JNull = JNull"
  by (cases ks) simp_all


text \<open>Reading back what was just written at the same path.\<close>

lemma get_path_set_path: "get_path p (set_path p v t) = v"
proof (induction p arbitrary: t)
  case Nil
  show ?case by simp
next
  case (Cons k ks)
  define child where "child = set_path ks v (get_path [k] t)"
  have ih: "get_path ks child = v"
    unfolding child_def by (rule Cons.IH)
  have step: "set_path (k # ks) v t =
      (if child = JNull
       then (if AList.delete k (obj_fields t) = [] then JNull else JObj (AList.delete k (obj_fields t)))
       else JObj (AList.update k child (obj_fields t)))"
    unfolding set_path.simps child_def Let_def
    by (cases "obj_fields t") auto
  show ?case
  proof (cases "child = JNull")
    case True
    with ih have "v = JNull" by (simp add: get_path_JNull)
    with True show ?thesis
      unfolding step by (simp add: get_path_JNull delete_conv')
  next
    case False
    with ih show ?thesis
      unfolding step by (simp add: update_conv')
  qed
qed

text \<open>
  A path read in two steps, and a one-key path as a property read.
\<close>

lemma get_path_append: "get_path (p @ q) t = get_path q (get_path p t)"
  by (induction p arbitrary: t)
     (simp_all add: get_path_JNull split: json.splits option.splits)

lemma get_path_key: "get_path [k] t = (case get_prop t k of Some c \<Rightarrow> c | None \<Rightarrow> JNull)"
  by (cases t) (simp_all split: option.splits)

text \<open>
  The one run of \<open>cleanupUser\<close>, by the provider's answer.
\<close>

lemma cleanupUser_run:
  "cleanupUser env data w =
     (case stripe_api env
             (CustomersDel (get_path (customer_ref (user_uid data)) (db w)))
             (stripe_state w) of
        (Inl e, s') \<Rightarrow>
          (Inl e,
           \<lparr>db = db w, stripe_state = s',
            trace = trace w @
              [DbRead (customer_ref (user_uid data)),
               StripeCall (CustomersDel (get_path (customer_ref (user_uid data)) (db w)))]\<rparr>)
      | (Inr r, s') \<Rightarrow>
          (Inr (),
           \<lparr>db = set_path (customer_ref (user_uid data)) JNull (db w), stripe_state = s',
            trace = trace w @
              [DbRead (customer_ref (user_uid data)),
               StripeCall (CustomersDel (get_path (customer_ref (user_uid data)) (db w))),
               DbRemove (customer_ref (user_uid data))]\<rparr>))"
  by (simp add: cleanupUser_def io_defs split: prod.splits sum.splits)

text \<open>
  Whatever the provider is: once \<open>createTheStripeCustomer\<close> has stored the id of the
  new customer, \<open>cleanupUser\<close> hands the provider the node that holds the id in its
  \<open>customer_id\<close> property, which is an object and not the id.
\<close>

lemma cleanupUser_passes_node:
  assumes created: "stripe_api env
        (CustomersCreate [(''email'', map_option JStr (user_email data))])
        (stripe_state w) = (Inr customer, s1)"
    and cid: "get_prop customer ''id'' = Some (JStr cid)"
  shows "fst (createTheStripeCustomer env data w) = Inr () \<and>
         (\<exists>fs. stripe_calls (trace (snd (cleanupUser env data
                   (snd (createTheStripeCustomer env data w))))) =
                stripe_calls (trace w) @
                  [CustomersCreate [(''email'', map_option JStr (user_email data))],
                   CustomersDel (JObj fs)] \<and>
               map_of fs ''customer_id'' = Some (JStr cid))"
proof -
  let ?p = "customer_id_ref (user_uid data)"
  let ?w1 = "\<lparr>db = set_path ?p (JStr cid) (db w), stripe_state = s1,
              trace = trace w @
                [StripeCall (CustomersCreate [(''email'', map_option JStr (user_email data))]),
                 DbSet ?p (JStr cid)]\<rparr>"
  from cid have "customer \<noteq> JNull" by auto
  with created cid have run: "createTheStripeCustomer env data w = (Inr (), ?w1)"
    by (simp add: createTheStripeCustomer_def io_defs)
  have "get_path (customer_ref (user_uid data) @ [''customer_id'']) (db ?w1) = JStr cid"
    using get_path_set_path [of ?p "JStr cid" "db w"]
    by (simp add: customer_id_ref_def customer_ref_def)
  then have "get_path [''customer_id''] (get_path (customer_ref (user_uid data)) (db ?w1))
      = JStr cid"
    by (simp only: get_path_append)
  then obtain fs where node: "get_path (customer_ref (user_uid data)) (db ?w1) = JObj fs"
    and fs: "map_of fs ''customer_id'' = Some (JStr cid)"
    by (cases "get_path (customer_ref (user_uid data)) (db ?w1)")
       (auto simp add: get_path_key split: option.splits)
  have "stripe_calls (trace (snd (cleanupUser env data ?w1))) =
      stripe_calls (trace w) @
        [CustomersCreate [(''email'', map_option JStr (user_email data))],
         CustomersDel (JObj fs)]"
    unfolding cleanupUser_run node
    by (simp add: stripe_calls_append split: prod.splits sum.splits)
  with fs run show ?thesis by auto
qed




section \<open>The charge orchestrator\<close>

text \<open>
  Claim C1, as amended. A write to a charge record whose new value is \<open>null\<close>, or
  whose \<open>id\<close> or \<open>error\<close> property is truthy, is a no-op: the handler resolves and
  the world is the one it started in, so there is no database read, no provider call
  and no write-back.
\<close>

theorem createStripeCharge_processed_noop:
  assumes "charge_val ev = JNull \<or> truthy (get_prop (charge_val ev) ''id'')
           \<or> truthy (get_prop (charge_val ev) ''error'')"
  shows "createStripeCharge env ev w = (Inr (), w)"
  using assms by (auto simp add: createStripeCharge_def Let_def resolve_def)

text \<open>
  The no-op at a record that already carries the provider's response.
\<close>

theorem createStripeCharge_processed_noop_witness:
  "createStripeCharge (stub_env (accepting_api (JObj [(''id'', JStr ''ch_1'')])))
     \<lparr>charge_val = JObj [(''amount'', JNum 500), (''id'', JStr ''ch_1'')],
      charge_userId = ''u1'', charge_id = ''c1''\<rparr> (world0 db_cus123)
   = (Inr (), world0 db_cus123)"
  by (rule createStripeCharge_processed_noop) simp

text \<open>
  Claim C1 as stated speaks of a record that contains an \<open>id\<close> or \<open>error\<close>
  field. The guard tests truthiness: a record whose \<open>error\<close> field is the empty
  string contains the field and is charged all the same, and the response is written
  back.
\<close>

theorem createStripeCharge_falsy_error_counterexample:
  "has_field (JObj [(''amount'', JNum 500), (''error'', JStr [])]) ''error'' \<and>
   stripe_calls (trace (snd (createStripeCharge
      (stub_env (accepting_api (JObj [(''id'', JStr ''ch_1'')])))
      \<lparr>charge_val = JObj [(''amount'', JNum 500), (''error'', JStr [])],
       charge_userId = ''u1'', charge_id = ''c1''\<rparr> (world0 db_cus123))))
   = [ChargesCreate [(''amount'', Some (JNum 500)), (''currency'', Some (JStr ''USD'')),
                     (''customer'', Some (JStr ''cus_123'')), (''source'', None)] ''c1''] \<and>
   db_writes (trace (snd (createStripeCharge
      (stub_env (accepting_api (JObj [(''id'', JStr ''ch_1'')])))
      \<lparr>charge_val = JObj [(''amount'', JNum 500), (''error'', JStr [])],
       charge_userId = ''u1'', charge_id = ''c1''\<rparr> (world0 db_cus123))))
   = [([''stripe_customers'', ''u1'', ''charges'', ''c1''], JObj [(''id'', JStr ''ch_1'')])]"
  by (simp add: has_field_def createStripeCharge_def Let_def io_defs stub_env_def
      accepting_api_def world0_def db_cus123_def customer_id_ref_def charge_ref_def
      charge_payload_def currency_def)





section \<open>Sanitizing errors\<close>

text \<open>
  Claim C4, as amended. \<open>userFacingMessage\<close> returns the error's message exactly when
  the error's \<open>type\<close> is truthy, that is present and not \<open>null\<close>, \<open>false\<close>, \<open>0\<close>
  or the empty string; in every other case it returns the fixed fallback text.
\<close>

theorem userFacingMessage_truthy_type:
  "userFacingMessage error =
     (if etype error \<in> {None, Some JNull, Some (JBool False), Some (JNum 0), Some (JStr [])}
      then ''An error occurred, developers have been alerted''
      else emessage error)"
  by (cases "etype error" rule: truthy.cases) (simp_all add: userFacingMessage_def)

text \<open>
  A provider error keeps its message; a TypeError of the runtime gets the fallback.
\<close>

theorem userFacingMessage_truthy_type_witness:
  "userFacingMessage card_declined = ''Your card was declined.'' \<and>
   userFacingMessage (TypeError ''x is not a function'')
     = ''An error occurred, developers have been alerted''"
  using userFacingMessage_truthy_type [of card_declined]
    userFacingMessage_truthy_type [of "TypeError ''x is not a function''"]
  by (simp add: card_declined_def TypeError_def)

text \<open>
  Claim C4 as stated: an error that carries a \<open>type\<close> property gets its message
  back. An error whose \<open>type\<close> is the empty string carries the property and gets the
  fallback text.
\<close>

theorem userFacingMessage_falsy_type_counterexample:
  "etype \<lparr>etype = Some (JStr []), emessage = ''raw'', estack = ''Error: raw''\<rparr> \<noteq> None \<and>
   userFacingMessage \<lparr>etype = Some (JStr []), emessage = ''raw'', estack = ''Error: raw''\<rparr>
     \<noteq> emessage \<lparr>etype = Some (JStr []), emessage = ''raw'', estack = ''Error: raw''\<rparr> \<and>
   userFacingMessage \<lparr>etype = Some (JStr []), emessage = ''raw'', estack = ''Error: raw''\<rparr>
     = ''An error occurred, developers have been alerted''"
  by (simp add: userFacingMessage_def)

section \<open>The customer registry\<close>

text \<open>
  Claim C5, as amended. \<open>cleanupUser\<close> has no test for a missing customer record: for
  an account with nothing stored at \<open>/stripe_customers/{uid}\<close>, and so without a
  customer record, it reads \<open>null\<close> and still makes exactly one provider call,
  \<open>customers.del(null)\<close>; it fails exactly when the provider rejects that call.
\<close>

theorem cleanupUser_without_record_calls_provider:
  assumes absent: "get_path (customer_ref (user_uid data)) (db w) = JNull"
  shows "get_path (customer_id_ref (user_uid data)) (db w) = JNull \<and>
         stripe_calls (trace (snd (cleanupUser env data w))) =
           stripe_calls (trace w) @ [CustomersDel JNull] \<and>
         isl (fst (cleanupUser env data w)) =
           isl (fst (stripe_api env (CustomersDel JNull) (stripe_state w)))"
proof -
  have "get_path (customer_id_ref (user_uid data)) (db w) =
      get_path [''customer_id''] (get_path (customer_ref (user_uid data)) (db w))"
    using get_path_append [of "customer_ref (user_uid data)" "[''customer_id'']" "db w"]
    by (simp add: customer_id_ref_def customer_ref_def)
  with absent have "get_path (customer_id_ref (user_uid data)) (db w) = JNull"
    by (simp only: get_path_JNull)
  moreover have "stripe_calls (trace (snd (cleanupUser env data w))) =
      stripe_calls (trace w) @ [CustomersDel JNull]"
    unfolding cleanupUser_run absent
    by (simp add: stripe_calls_append split: prod.splits sum.splits)
  moreover have "isl (fst (cleanupUser env data w)) =
      isl (fst (stripe_api env (CustomersDel JNull) (stripe_state w)))"
    unfolding cleanupUser_run absent
    by (simp split: prod.splits sum.splits)
  ultimately show ?thesis by simp
qed

text \<open>
  Deleting an account in front of an empty database, with a provider that accepts.
\<close>

theorem cleanupUser_without_record_calls_provider_witness:
  "stripe_calls (trace (snd (cleanupUser
      (stub_env (accepting_api (JObj [(''deleted'', JBool True)]))) alice (world0 JNull))))
     = [CustomersDel JNull] \<and>
   \<not> isl (fst (cleanupUser
      (stub_env (accepting_api (JObj [(''deleted'', JBool True)]))) alice (world0 JNull)))"
  using cleanupUser_without_record_calls_provider
    [where env = "stub_env (accepting_api (JObj [(''deleted'', JBool True)]))"
       and data = alice and w = "world0 JNull"]
  by (simp add: stub_defs ref_defs alice_def)

text \<open>
  Claim C5 as stated: no provider call and no error. On the empty database the provider
  is called with \<open>null\<close>, and the provider double answers with its argument error,
  which is the result of the handler.
\<close>

theorem cleanupUser_without_record_counterexample:
  "get_path (customer_id_ref (user_uid alice)) (db double0) = JNull \<and>
   stripe_calls (trace (snd (cleanupUser (stub_env double_api) alice double0)))
     = [CustomersDel JNull] \<and>
   fst (cleanupUser (stub_env double_api) alice double0) = Inl id_not_string"
  by (simp add: cleanupUser_def io_defs stub_env_def double0_def alice_def ref_defs)

text \<open>
  Claim C6. The provider's deletion comes before the removal of the local node: when
  the provider rejects, the handler fails with the provider's error, the database is the
  one it started with and the trace ends at the provider call; when the provider
  accepts, the removal is the step after the provider call.
\<close>

theorem cleanupUser_provider_before_removal:
  "(\<forall>e s'. stripe_api env
        (CustomersDel (get_path (customer_ref (user_uid data)) (db w)))
        (stripe_state w) = (Inl e, s') \<longrightarrow>
      cleanupUser env data w =
        (Inl e,
         \<lparr>db = db w, stripe_state = s',
          trace = trace w @
            [DbRead (customer_ref (user_uid data)),
             StripeCall (CustomersDel (get_path (customer_ref (user_uid data)) (db w)))]\<rparr>))
   \<and>
   (\<forall>r s'. stripe_api env
        (CustomersDel (get_path (customer_ref (user_uid data)) (db w)))
        (stripe_state w) = (Inr r, s') \<longrightarrow>
      cleanupUser env data w =
        (Inr (),
         \<lparr>db = set_path (customer_ref (user_uid data)) JNull (db w), stripe_state = s',
          trace = trace w @
            [DbRead (customer_ref (user_uid data)),
             StripeCall (CustomersDel (get_path (customer_ref (user_uid data)) (db w))),
             DbRemove (customer_ref (user_uid data))]\<rparr>))"
  by (simp add: cleanupUser_run)

text \<open>
  Both runs on the database that holds \<open>cus_123\<close> for account \<open>u1\<close>.
\<close>

theorem cleanupUser_provider_before_removal_witness:
  "cleanupUser (stub_env (declining_api no_such_customer)) alice (world0 db_cus123)
     = (Inl no_such_customer,
        \<lparr>db = db_cus123, stripe_state = (),
         trace = [DbRead [''stripe_customers'', ''u1''],
                  StripeCall (CustomersDel (JObj [(''customer_id'', JStr ''cus_123'')]))]\<rparr>) \<and>
   cleanupUser (stub_env (accepting_api (JObj [(''deleted'', JBool True)]))) alice
       (world0 db_cus123)
     = (Inr (),
        \<lparr>db = JNull, stripe_state = (),
         trace = [DbRead [''stripe_customers'', ''u1''],
                  StripeCall (CustomersDel (JObj [(''customer_id'', JStr ''cus_123'')])),
                  DbRemove [''stripe_customers'', ''u1'']]\<rparr>)"
  using cleanupUser_provider_before_removal
    [where env = "stub_env (declining_api no_such_customer)"
       and data = alice and w = "world0 db_cus123"]
    cleanupUser_provider_before_removal
    [where env = "stub_env (accepting_api (JObj [(''deleted'', JBool True)]))"
       and data = alice and w = "world0 db_cus123"]
  by (simp add: stub_defs ref_defs alice_def)

section \<open>The payment-source orchestrator\<close>



section \<open>Creating and deleting an account\<close>

text \<open>
  Claim C8. The round trip on the provider double, from an empty database: creating the
  account registers customer \<open>cus_x\<close> and stores its id. \<open>cleanupUser\<close> then reads
  the node \<open>/stripe_customers/u1\<close>, not its \<open>customer_id\<close> child, and hands the
  provider the object \<open>{customer_id: cus_x}\<close>; the provider answers with its
  argument error, the handler fails, and both the customer record and the provider's
  customer are still there.
\<close>

theorem create_then_cleanup_keeps_customer:
  "(case createTheStripeCustomer (stub_env double_api) alice double0 of
      (r1, w1) \<Rightarrow>
        (case cleanupUser (stub_env double_api) alice w1 of
           (r2, w2) \<Rightarrow>
             r1 = Inr () \<and>
             get_path (customer_id_ref ''u1'') (db w1) = JStr ''cus_x'' \<and>
             map_of (customers (stripe_state w1)) ''cus_x'' \<noteq> None \<and>
             stripe_calls (trace w2) =
               [CustomersCreate [(''email'', Some (JStr ''alice@example.com''))],
                CustomersDel (JObj [(''customer_id'', JStr ''cus_x'')])] \<and>
             r2 = Inl id_not_string \<and>
             get_path (customer_id_ref ''u1'') (db w2) = JStr ''cus_x'' \<and>
             map_of (customers (stripe_state w2)) ''cus_x'' \<noteq> None))"
  by (simp add: createTheStripeCustomer_def cleanupUser_def io_defs stub_env_def double0_def
      alice_def ref_defs Let_def List.map_filter_def)

section \<open>Confirmation mails\<close>

text \<open>
  Claim C9, as amended. A write at \<open>/admins/{id}\<close> that leaves a record sends one
  confirmation mail to the record's \<open>email\<close> exactly when the snapshot reports the
  \<open>active\<close> field as changed and the new \<open>active\<close> is falsy; any other write that
  leaves a record sends no mail.
\<close>

theorem sendEmailConfirmation_mails:
  assumes "admin_val ev \<noteq> JNull"
  shows "mails_sent (trace (snd (sendEmailConfirmation env ev w))) =
     mails_sent (trace w) @
       (if admin_changed ev ''active'' \<and> \<not> truthy (get_prop (admin_val ev) ''active'')
        then [\<lparr>mail_from = ''\"FireShop\" <noreply@firebase.com>'',
               mail_to = get_prop (admin_val ev) ''email'',
               mail_subject = ''Admin Confirmation'',
               mail_html = ''<h2>FireShop</h2>You have been added as an admin to FireShop. <br><br>Sign in now: https://''
                 @ gcloud_project env @ ''.firebaseapp.com/register''\<rparr>]
        else [])"
  using assms
  by (simp add: sendEmailConfirmation_def Let_def io_defs mails_sent_append
      split: option.splits)

text \<open>
  A new, inactive admin is mailed.
\<close>

theorem sendEmailConfirmation_mails_witness:
  "mails_sent (trace (snd (sendEmailConfirmation (stub_env (accepting_api JNull))
      \<lparr>admin_val = JObj [(''email'', JStr ''bob@example.com''), (''active'', JBool False)],
       admin_changed = (\<lambda>k. True), admin_id = ''a1''\<rparr> (world0 JNull))))
   = [\<lparr>mail_from = ''\"FireShop\" <noreply@firebase.com>'',
       mail_to = Some (JStr ''bob@example.com''),
       mail_subject = ''Admin Confirmation'',
       mail_html = ''<h2>FireShop</h2>You have been added as an admin to FireShop. <br><br>Sign in now: https://fireshop.firebaseapp.com/register''\<rparr>]"
  using sendEmailConfirmation_mails
    [where env = "stub_env (accepting_api JNull)"
       and ev = "\<lparr>admin_val = JObj [(''email'', JStr ''bob@example.com''),
                     (''active'', JBool False)],
                  admin_changed = (\<lambda>k. True), admin_id = ''a1''\<rparr>"
       and w = "world0 JNull"]
  by (simp add: stub_defs)

text \<open>
  Claim C9 as stated: every change sends a mail. A change that makes the admin active
  sends none, and the handler leaves the world as it was.
\<close>

theorem sendEmailConfirmation_active_counterexample:
  "sendEmailConfirmation (stub_env (accepting_api JNull))
      \<lparr>admin_val = JObj [(''email'', JStr ''bob@example.com''), (''active'', JBool True)],
       admin_changed = (\<lambda>k. True), admin_id = ''a1''\<rparr> (world0 JNull)
   = (Inr (), world0 JNull) \<and>
   mails_sent (trace (world0 JNull)) = []"
  by (simp add: sendEmailConfirmation_def Let_def io_defs stub_defs)

text \<open>
  Claim C10. An order exists at \<open>/users/{uid}/orders/{orderId}\<close> and the user record
  above it has no truthy \<open>email\<close> (the property is absent or falsy): the handler reads
  the user record, sends no mail and resolves.
\<close>

theorem sendOrderConfirmation_without_email:
  assumes order: "get_path (order_ref ev) (db w) \<noteq> JNull"
    and no_email: "\<not> truthy (get_prop (get_path [''users'', order_uid ev] (db w)) ''email'')"
  shows "sendOrderConfirmation env ev w =
           (Inr (), w\<lparr>trace := trace w @ [DbRead [''users'', order_uid ev]]\<rparr>) \<and>
         mails_sent (trace (snd (sendOrderConfirmation env ev w))) = mails_sent (trace w)"
proof -
  have "get_path (order_ref ev) (db w) =
      get_path [''orders'', order_orderId ev] (get_path [''users'', order_uid ev] (db w))"
    using get_path_append [of "[''users'', order_uid ev]" "[''orders'', order_orderId ev]" "db w"]
    by (simp add: order_ref_def)
  with order have user: "get_path [''users'', order_uid ev] (db w) \<noteq> JNull"
    by (auto simp add: get_path_JNull)
  have run: "sendOrderConfirmation env ev w =
      (Inr (), w\<lparr>trace := trace w @ [DbRead [''users'', order_uid ev]]\<rparr>)"
    using user no_email
    by (simp add: sendOrderConfirmation_def Let_def io_defs order_ref_def parent_def)
  show ?thesis
    unfolding run by (simp add: mails_sent_append)
qed

text \<open>
  A user record with a name and one order, and no email.
\<close>

theorem sendOrderConfirmation_without_email_witness:
  "sendOrderConfirmation (stub_env (accepting_api JNull))
     \<lparr>order_uid = ''u1'', order_orderId = ''o1''\<rparr>
     (world0 (JObj [(''users'', JObj [(''u1'',
        JObj [(''name'', JStr ''Alice''),
              (''orders'', JObj [(''o1'', JObj [(''total'', JNum 500)])])])])]))
   = (Inr (),
      \<lparr>db = JObj [(''users'', JObj [(''u1'',
          JObj [(''name'', JStr ''Alice''),
                (''orders'', JObj [(''o1'', JObj [(''total'', JNum 500)])])])])],
       stripe_state = (),
       trace = [DbRead [''users'', ''u1'']]\<rparr>)"
  using sendOrderConfirmation_without_email
    [where env = "stub_env (accepting_api JNull)"
       and ev = "\<lparr>order_uid = ''u1'', order_orderId = ''o1''\<rparr>"
       and w = "world0 (JObj [(''users'', JObj [(''u1'',
          JObj [(''name'', JStr ''Alice''),
                (''orders'', JObj [(''o1'', JObj [(''total'', JNum 500)])])])])])"]
  by (simp add: stub_defs ref_defs)


end
